theory Spec2Isabelle
  imports Complex_Main "HOL-Library.Word"
begin

section \<open>The event listener (internal/listener/polymarket_listener.go)\<close>

text \<open>
  Representation of the Go data.
  \<^item> \<open>common.Hash\<close> and \<open>[32]byte\<close> are 32-byte values: \<open>256 word\<close>.
  \<^item> \<open>common.Address\<close> is kept in its \<open>Hex()\<close> rendering, a string of 42 characters
    (\<open>0x\<close> and 40 hexadecimal digits); the slices \<open>maker[:10]\<close> of the log lines are
    therefore always in range.
  \<^item> \<open>*big.Int\<close> is an unbounded integer, \<open>int\<close>; a field that may hold the nil pointer
    is an \<open>int option\<close>.
  \<^item> A Go \<open>error\<close> is represented by its message.
  \<^item> \<open>map[string]bool\<close> is a partial map; indexing a missing key yields \<open>false\<close>.
\<close>

type_synonym hash = "256 word"
type_synonym address = string
type_synonym bytes = "8 word list"
type_synonym error = string

record OrderFilledEvent =
  OrderHash :: hash
  Maker :: address
  Taker :: address
  MakerAssetId :: int
  TakerAssetId :: int
  MakerAmountFilled :: int
  TakerAmountFilled :: int
  Fee :: int

record TradeSignal =
  Trader :: string
  Side :: string
  MarketID :: string
  TokenID :: "int option"
  Amount :: "int option"
  Price :: "int option"
  TxHash :: string

text \<open>The value of \<open>&TradeSignal{}\<close>: empty strings and nil pointers.\<close>

definition zero_TradeSignal :: TradeSignal where
  "zero_TradeSignal =
     \<lparr>Trader = '''', Side = '''', MarketID = '''', TokenID = None, Amount = None,
      Price = None, TxHash = ''''\<rparr>"

text \<open>
  \<open>extractTradeSignal\<close>, in the order of the source: the maker branch, else the taker
  branch, then the price block. \<open>big.Int.Div\<close> is Euclidean division; it is only reached
  with a positive divisor, where it agrees with \<open>div\<close> on \<open>int\<close>.
\<close>

definition extractTradeSignal :: "OrderFilledEvent \<Rightarrow> bool \<Rightarrow> bool \<Rightarrow> TradeSignal" where
  "extractTradeSignal event makerIsTop takerIsTop =
     (let signal = zero_TradeSignal;
          signal =
            (if makerIsTop then
               (let signal = signal\<lparr>Trader := Maker event\<rparr> in
                if MakerAssetId event = 0
                then signal\<lparr>Side := ''BUY'', TokenID := Some (TakerAssetId event),
                            Amount := Some (TakerAmountFilled event)\<rparr>
                else signal\<lparr>Side := ''SELL'', TokenID := Some (MakerAssetId event),
                            Amount := Some (MakerAmountFilled event)\<rparr>)
             else if takerIsTop then
               (let signal = signal\<lparr>Trader := Taker event\<rparr> in
                if TakerAssetId event = 0
                then signal\<lparr>Side := ''BUY'', TokenID := Some (MakerAssetId event),
                            Amount := Some (MakerAmountFilled event)\<rparr>
                else signal\<lparr>Side := ''SELL'', TokenID := Some (TakerAssetId event),
                            Amount := Some (TakerAmountFilled event)\<rparr>)
             else signal)
      in if Side signal = ''BUY'' \<and> MakerAmountFilled event > 0
         then signal\<lparr>Price := Some ((TakerAmountFilled event * 1000000) div MakerAmountFilled event)\<rparr>
         else signal)"

text \<open>
  \<open>types.Log\<close>, with the fields the listener reads.
\<close>

record Log =
  log_Topics :: "hash list"
  log_Data :: bytes
  log_TxHash :: hash

text \<open>
  \<open>PolymarketListener\<close>. The field \<open>exchangeABI\<close> stands for go-ethereum's
  \<open>exchangeABI.UnpackIntoInterface(event, "OrderFilled", data)\<close> on a zero-valued event:
  the decoder is the library's and is taken as it comes, returning the filled event or the
  decoding error. \<open>cfg\<close>, \<open>db\<close> and \<open>client\<close> are external; what they return is passed
  to the functions below as arguments.
\<close>

record PolymarketListener =
  exchangeABI :: "bytes \<Rightarrow> error + OrderFilledEvent"
  orderFilledSig :: hash
  ordersMatchedSig :: hash
  topTraders :: "string \<rightharpoonup> bool"

text \<open>Indexing a Go \<open>map[string]bool\<close>: a missing key reads as \<open>false\<close>.\<close>

definition map_index :: "(string \<rightharpoonup> bool) \<Rightarrow> string \<Rightarrow> bool" where
  "map_index m k = (case m k of None \<Rightarrow> False | Some b \<Rightarrow> b)"

text \<open>
  What a function of the listener returns: \<open>nil\<close> (\<open>Ok\<close>), an error, or a run-time panic (which
  nothing in the listener recovers). What it writes to the log is kept as a list of
  entries, one constructor per \<open>log.Printf\<close> site (the detection block of
  \<open>processOrderFilled\<close> is one entry).
\<close>

datatype ret = Ok | Err error | Panic string

datatype log_entry =
    NotTopTraderActivity
  | TopTraderActivity OrderFilledEvent bool bool hash
  | StoringTradeSignal TradeSignal hash
  | OrdersMatchedSeen hash
  | ErrorProcessingLog error
  | ErrorProcessingBlock nat error
  | SubscriptionError error
  | FailedToGetTopTraders error
  | UpdatedTopTraders nat

definition storeTradeSignal :: "TradeSignal \<Rightarrow> hash \<Rightarrow> log_entry list \<times> ret" where
  "storeTradeSignal signal txHash = ([StoringTradeSignal signal txHash], Ok)"

definition processOrdersMatched :: "Log \<Rightarrow> log_entry list \<times> ret" where
  "processOrdersMatched vLog = ([OrdersMatchedSeen (log_TxHash vLog)], Ok)"

text \<open>
  \<open>processOrderFilled\<close>. \<open>toLower\<close> is Go's \<open>strings.ToLower\<close>, a parameter.
\<close>

definition processOrderFilled ::
  "(string \<Rightarrow> string) \<Rightarrow> PolymarketListener \<Rightarrow> Log \<Rightarrow> log_entry list \<times> ret" where
  "processOrderFilled toLower l vLog =
     (case exchangeABI l (log_Data vLog) of
        Inl err \<Rightarrow> ([], Err (''failed to unpack OrderFilled: '' @ err))
      | Inr event0 \<Rightarrow>
          (let event = (if length (log_Topics vLog) \<ge> 2
                        then event0\<lparr>OrderHash := log_Topics vLog ! 1\<rparr> else event0);
               maker = Maker event;
               taker = Taker event;
               makerIsTop = map_index (topTraders l) (toLower maker);
               takerIsTop = map_index (topTraders l) (toLower taker)
           in if \<not> makerIsTop \<and> \<not> takerIsTop then ([NotTopTraderActivity], Ok)
              else
                (let tradeSignal = extractTradeSignal event makerIsTop takerIsTop;
                     (outs, r) = storeTradeSignal tradeSignal (log_TxHash vLog)
                 in (TopTraderActivity event makerIsTop takerIsTop (log_TxHash vLog) # outs, r))))"

text \<open>
  \<open>processLog\<close>: \<open>vLog.Topics[0]\<close> is read with no length check; on an empty slice Go
  panics with an index-out-of-range run-time error.
\<close>

definition processLog ::
  "(string \<Rightarrow> string) \<Rightarrow> PolymarketListener \<Rightarrow> Log \<Rightarrow> log_entry list \<times> ret" where
  "processLog toLower l vLog =
     (case log_Topics vLog of
        [] \<Rightarrow> ([], Panic ''index out of range [0] with length 0'')
      | topic0 # _ \<Rightarrow>
          if topic0 = orderFilledSig l then processOrderFilled toLower l vLog
          else if topic0 = ordersMatchedSig l then processOrdersMatched vLog
          else ([], Ok))"

text \<open>
  The \<open>for _, vLog := range logs\<close> loop of \<open>processBlock\<close>: an error of \<open>processLog\<close> is
  logged and the loop is left by \<open>break\<close>.
\<close>

fun processLogs ::
  "(string \<Rightarrow> string) \<Rightarrow> PolymarketListener \<Rightarrow> Log list \<Rightarrow> log_entry list \<times> ret" where
  "processLogs toLower l [] = ([], Ok)"
| "processLogs toLower l (vLog # logs) =
     (case processLog toLower l vLog of
        (outs, Ok) \<Rightarrow> (case processLogs toLower l logs of (outs', r) \<Rightarrow> (outs @ outs', r))
      | (outs, Err err) \<Rightarrow> (outs @ [ErrorProcessingLog err], Ok)
      | (outs, Panic p) \<Rightarrow> (outs, Panic p))"

text \<open>
  \<open>processBlock\<close>. \<open>filterLogs\<close> is the answer of \<open>l.client.FilterLogs\<close> to the query for
  the single block.
\<close>

definition processBlock ::
  "(string \<Rightarrow> string) \<Rightarrow> PolymarketListener \<Rightarrow> (nat \<Rightarrow> error + Log list) \<Rightarrow> nat
     \<Rightarrow> log_entry list \<times> ret" where
  "processBlock toLower l filterLogs blockNumber =
     (case filterLogs blockNumber of
        Inl err \<Rightarrow> ([], Err (''failed to filter logs: '' @ err))
      | Inr logs \<Rightarrow> processLogs toLower l logs)"

text \<open>
  The \<open>select\<close> loop of \<open>Start\<close>, run over the sequence of cases the \<open>select\<close> takes.
  The loop has no exit of its own: when the sequence is used up the listener is still
  waiting (\<open>Running\<close>). The tracked set is held fixed over the run; its refresher is
  a goroutine of its own, modelled below.
\<close>

datatype select_case = CtxDone error | SubErr error | Header nat

datatype run = Returned error | Running | Crashed string

fun watch ::
  "(string \<Rightarrow> string) \<Rightarrow> PolymarketListener \<Rightarrow> (nat \<Rightarrow> error + Log list)
     \<Rightarrow> select_case list \<Rightarrow> log_entry list \<times> run" where
  "watch toLower l filterLogs [] = ([], Running)"
| "watch toLower l filterLogs (CtxDone err # evs) = ([], Returned err)"
| "watch toLower l filterLogs (SubErr err # evs) = ([SubscriptionError err], Returned err)"
| "watch toLower l filterLogs (Header n # evs) =
     (case processBlock toLower l filterLogs n of
        (outs, Ok) \<Rightarrow>
          (case watch toLower l filterLogs evs of (outs', r) \<Rightarrow> (outs @ outs', r))
      | (outs, Err err) \<Rightarrow>
          (case watch toLower l filterLogs evs of
             (outs', r) \<Rightarrow> (outs @ ErrorProcessingBlock n err # outs', r))
      | (outs, Panic p) \<Rightarrow> (outs, Crashed p))"

text \<open>
  \<open>Start\<close>: \<open>subscribe\<close> is the error of \<open>SubscribeNewHead\<close>, if any. The two goroutines
  it launches are modelled on their own (\<open>updateTopTraders\<close> below; \<open>pollHistoricalBlocks\<close>
  has an empty body).
\<close>

definition Start ::
  "(string \<Rightarrow> string) \<Rightarrow> PolymarketListener \<Rightarrow> error option \<Rightarrow> (nat \<Rightarrow> error + Log list)
     \<Rightarrow> select_case list \<Rightarrow> log_entry list \<times> run" where
  "Start toLower l subscribe filterLogs evs =
     (case subscribe of
        Some err \<Rightarrow> ([], Returned (''failed to subscribe to new heads: '' @ err))
      | None \<Rightarrow> watch toLower l filterLogs evs)"

text \<open>
  \<open>updateTopTraders\<close>. The body of a tick first stores a fresh empty map in the field
  \<open>l.topTraders\<close> and then inserts the lower-cased addresses into that map one by one.
  \<open>insert_traders\<close> is the \<open>for\<close> loop.
\<close>

fun insert_traders ::
  "(string \<Rightarrow> string) \<Rightarrow> string list \<Rightarrow> (string \<rightharpoonup> bool) \<Rightarrow> (string \<rightharpoonup> bool)" where
  "insert_traders toLower [] m = m"
| "insert_traders toLower (trader # traders) m =
     insert_traders toLower traders (m(toLower trader \<mapsto> True))"

text \<open>
  The same body statement by statement, on the listener. \<open>tick_states\<close> lists the
  listener as it is before the tick and then after every statement of the tick that writes
  its field \<open>topTraders\<close>: after \<open>l.topTraders = make(map[string]bool)\<close>, and after each
  \<open>l.topTraders[strings.ToLower(trader)] = true\<close> of the loop (\<open>fill_states\<close>). When the
  query fails the tick writes nothing. The field is read elsewhere by plain indexing
  (\<open>map_index\<close>), with no lock in either place, so each listed state is one that a look-up
  made during the tick can meet.
\<close>

fun fill_states ::
  "(string \<Rightarrow> string) \<Rightarrow> string list \<Rightarrow> PolymarketListener \<Rightarrow> PolymarketListener list" where
  "fill_states toLower [] l = []"
| "fill_states toLower (trader # traders) l =
     (let l' = l\<lparr>topTraders := (topTraders l)(toLower trader \<mapsto> True)\<rparr>
      in l' # fill_states toLower traders l')"

definition tick_states ::
  "(string \<Rightarrow> string) \<Rightarrow> error + string list \<Rightarrow> PolymarketListener
     \<Rightarrow> PolymarketListener list" where
  "tick_states toLower getTopTraders l =
     (case getTopTraders of
        Inl err \<Rightarrow> [l]
      | Inr traders \<Rightarrow>
          (let l0 = l\<lparr>topTraders := Map.empty\<rparr>
           in l # l0 # fill_states toLower traders l0))"

text \<open>
  One tick: \<open>getTopTraders\<close> is the result of \<open>l.db.GetTopTraders(l.cfg.TopTradersCount)\<close>.
\<close>

definition updateTopTraders_tick ::
  "(string \<Rightarrow> string) \<Rightarrow> error + string list \<Rightarrow> PolymarketListener
     \<Rightarrow> PolymarketListener \<times> log_entry list" where
  "updateTopTraders_tick toLower getTopTraders l =
     (case getTopTraders of
        Inl err \<Rightarrow> (l, [FailedToGetTopTraders err])
      | Inr traders \<Rightarrow>
          (let l' = l\<lparr>topTraders := insert_traders toLower traders Map.empty\<rparr>
           in (l', [UpdatedTopTraders (card (dom (topTraders l')))])))"

text \<open>The loop of \<open>updateTopTraders\<close> over the cases its \<open>select\<close> takes.\<close>

datatype ticker_case = TickerDone | Tick "error + string list"

fun updateTopTraders ::
  "(string \<Rightarrow> string) \<Rightarrow> PolymarketListener \<Rightarrow> ticker_case list
     \<Rightarrow> PolymarketListener \<times> log_entry list" where
  "updateTopTraders toLower l [] = (l, [])"
| "updateTopTraders toLower l (TickerDone # evs) = (l, [])"
| "updateTopTraders toLower l (Tick r # evs) =
     (case updateTopTraders_tick toLower r l of
        (l', outs) \<Rightarrow>
          (case updateTopTraders toLower l' evs of (l'', outs') \<Rightarrow> (l'', outs @ outs')))"

text \<open>
  \<open>strings.ToLower\<close> on ASCII text, for evaluating the functions on concrete addresses.
\<close>

definition ascii_lower_char :: "char \<Rightarrow> char" where
  "ascii_lower_char c =
     (if (65::nat) \<le> of_char c \<and> of_char c \<le> (90::nat)
      then char_of (of_char c + (32::nat)) else c)"

definition ascii_ToLower :: "string \<Rightarrow> string" where
  "ascii_ToLower s = map ascii_lower_char s"

section \<open>The store (internal/database/database.go)\<close>

text \<open>
  The tables \<open>positions\<close> and \<open>trades\<close> as lists of rows in insertion order, with the
  columns of the schema. \<open>created_at\<close> and \<open>closed_at\<close> are left out: no function below
  reads them. \<open>float64\<close> values are only stored and copied, never computed with, and are
  represented by \<open>real\<close>. \<open>tx_hash\<close> is nullable and no \<open>INSERT\<close> sets it.
  Both ids are \<open>INTEGER PRIMARY KEY AUTOINCREMENT\<close>: a new row gets the largest id ever
  given plus one, which the counters \<open>positions_seq\<close> and \<open>trades_seq\<close> record.
\<close>

type_synonym float64 = real

record positions_row =
  p_id :: int
  p_market_id :: string
  p_token_id :: string
  p_outcome :: string
  p_amount :: float64
  p_avg_price :: float64
  p_current_price :: float64
  p_status :: string

record trades_row =
  t_id :: int
  t_position_id :: int
  t_trader_address :: string
  t_side :: string
  t_amount :: float64
  t_price :: float64
  t_tx_hash :: "string option"
  t_status :: string

record DB =
  positions :: "positions_row list"
  positions_seq :: int
  trades :: "trades_row list"
  trades_seq :: int

definition empty_DB :: DB where
  "empty_DB = \<lparr>positions = [], positions_seq = 0, trades = [], trades_seq = 0\<rparr>"

text \<open>The Go structs \<open>Position\<close> and \<open>Trade\<close> that the constructors return.\<close>

record Position =
  Position_ID :: int
  Position_MarketID :: string
  Position_TokenID :: string
  Position_Outcome :: string
  Position_Amount :: float64
  Position_AvgPrice :: float64
  Position_CurrentPrice :: float64
  Position_Status :: string

record Trade =
  Trade_ID :: int
  Trade_PositionID :: int
  Trade_TraderAddress :: string
  Trade_Side :: string
  Trade_Amount :: float64
  Trade_Price :: float64
  Trade_TxHash :: string
  Trade_Status :: string

text \<open>
  Every function issues one SQL statement through \<open>db.conn.Exec\<close>. The first argument
  \<open>exec\<close> is the error of that call, if the statement fails; a failed statement leaves
  the table as it was.
\<close>

definition CreatePosition ::
  "error option \<Rightarrow> DB \<Rightarrow> string \<Rightarrow> string \<Rightarrow> string \<Rightarrow> float64 \<Rightarrow> float64
     \<Rightarrow> DB \<times> (error + Position)" where
  "CreatePosition exec db marketID tokenID outcome amount price =
     (case exec of
        Some err \<Rightarrow> (db, Inl err)
      | None \<Rightarrow>
          (let id = positions_seq db + 1;
               row = \<lparr>p_id = id, p_market_id = marketID, p_token_id = tokenID,
                      p_outcome = outcome, p_amount = amount, p_avg_price = price,
                      p_current_price = price, p_status = ''open''\<rparr>
           in (db\<lparr>positions := positions db @ [row], positions_seq := id\<rparr>,
               Inr \<lparr>Position_ID = id, Position_MarketID = marketID, Position_TokenID = tokenID,
                    Position_Outcome = outcome, Position_Amount = amount,
                    Position_AvgPrice = price, Position_CurrentPrice = price,
                    Position_Status = ''open''\<rparr>)))"

definition CreateTrade ::
  "error option \<Rightarrow> DB \<Rightarrow> int \<Rightarrow> string \<Rightarrow> string \<Rightarrow> float64 \<Rightarrow> float64
     \<Rightarrow> DB \<times> (error + Trade)" where
  "CreateTrade exec db positionID traderAddr side amount price =
     (case exec of
        Some err \<Rightarrow> (db, Inl err)
      | None \<Rightarrow>
          (let id = trades_seq db + 1;
               row = \<lparr>t_id = id, t_position_id = positionID, t_trader_address = traderAddr,
                      t_side = side, t_amount = amount, t_price = price, t_tx_hash = None,
                      t_status = ''pending''\<rparr>
           in (db\<lparr>trades := trades db @ [row], trades_seq := id\<rparr>,
               Inr \<lparr>Trade_ID = id, Trade_PositionID = positionID,
                    Trade_TraderAddress = traderAddr, Trade_Side = side, Trade_Amount = amount,
                    Trade_Price = price, Trade_TxHash = [], Trade_Status = ''pending''\<rparr>)))"

text \<open>
  \<open>UPDATE trades SET status = ?, tx_hash = ? WHERE id = ?\<close>: the only condition is on the
  id.
\<close>

definition UpdateTradeStatus ::
  "error option \<Rightarrow> DB \<Rightarrow> int \<Rightarrow> string \<Rightarrow> string \<Rightarrow> DB \<times> error option" where
  "UpdateTradeStatus exec db tradeID status txHash =
     (case exec of
        Some err \<Rightarrow> (db, Some err)
      | None \<Rightarrow>
          (db\<lparr>trades :=
                map (\<lambda>t. if t_id t = tradeID
                          then t\<lparr>t_status := status, t_tx_hash := Some txHash\<rparr> else t)
                    (trades db)\<rparr>,
           None))"

section \<open>The executor (internal/executor/executor.go)\<close>

record TradeRequest =
  req_MarketID :: string
  req_TokenID :: string
  req_Outcome :: string
  req_Side :: string
  req_Amount :: float64
  req_Price :: float64

text \<open>
  What the outside world answers during one \<open>ExecuteTrade\<close>: the error of each of the
  three SQL statements, if it fails, and what the call of
  \<open>bind.NewKeyedTransactorWithChainID(e.privateKey, e.chainID)\<close> in \<open>submitTrade\<close> does:
  it returns no error, returns an error, or panics (the executor never assigns its
  \<open>privateKey\<close>, and the library dereferences the key).
\<close>

record ExecEnv =
  position_insert :: "error option"
  trade_insert :: "error option"
  transactor :: ret
  status_update :: "error option"

text \<open>\<open>fmt.Sprintf("0x%064x", 12345)\<close>: 12345 is 3039 in hexadecimal.\<close>

definition mockTxHash :: string where
  "mockTxHash = ''0x'' @ replicate 60 (CHR ''0'') @ ''3039''"

text \<open>\<open>submitTrade\<close> returns the pair \<open>(string, error)\<close> of the source, or panics.\<close>

definition submitTrade :: "ret \<Rightarrow> TradeRequest \<Rightarrow> string \<times> ret" where
  "submitTrade transactor_outcome req =
     (case transactor_outcome of
        Err err \<Rightarrow> ([], Err err)
      | Panic p \<Rightarrow> ([], Panic p)
      | Ok \<Rightarrow> (mockTxHash, Ok))"

text \<open>
  \<open>ExecuteTrade\<close>: the store after the call and what the call returns. The trader address
  passed to \<open>CreateTrade\<close> and the hash of a failed trade are the empty string. The error
  of the status update is discarded on the failure path and only logged on the success
  path. A panic in \<open>submitTrade\<close> is not recovered: the call ends there, after the two
  insertions.
\<close>

definition ExecuteTrade :: "ExecEnv \<Rightarrow> DB \<Rightarrow> TradeRequest \<Rightarrow> DB \<times> ret" where
  "ExecuteTrade env db req =
     (case CreatePosition (position_insert env) db (req_MarketID req) (req_TokenID req)
             (req_Outcome req) (req_Amount req) (req_Price req) of
        (db1, Inl err) \<Rightarrow> (db1, Err (''failed to create position: '' @ err))
      | (db1, Inr position) \<Rightarrow>
          (case CreateTrade (trade_insert env) db1 (Position_ID position) [] (req_Side req)
                  (req_Amount req) (req_Price req) of
             (db2, Inl err) \<Rightarrow> (db2, Err (''failed to create trade: '' @ err))
           | (db2, Inr trade) \<Rightarrow>
               (case submitTrade (transactor env) req of
                  (txHash, Err err) \<Rightarrow>
                    (fst (UpdateTradeStatus (status_update env) db2 (Trade_ID trade)
                            ''failed'' []),
                     Err (''failed to submit trade: '' @ err))
                | (txHash, Panic p) \<Rightarrow> (db2, Panic p)
                | (txHash, Ok) \<Rightarrow>
                    (fst (UpdateTradeStatus (status_update env) db2 (Trade_ID trade)
                            ''confirmed'' txHash),
                     Ok))))"

text \<open>
  The guarantee of \<open>AUTOINCREMENT\<close> as a property of a store: no row carries an id above
  the counter of its table.
\<close>

definition ids_below_seq :: "DB \<Rightarrow> bool" where
  "ids_below_seq db =
     (list_all (\<lambda>t. t_id t \<le> trades_seq db) (trades db)
      \<and> list_all (\<lambda>p. p_id p \<le> positions_seq db) (positions db))"

section \<open>Concrete inputs\<close>

text \<open>
  Values on which the functions are evaluated below. \<open>example_unpack\<close> rejects an empty
  payload, as the ABI decoder does when arguments are expected, and decodes any other
  payload to one fixed event.
\<close>

definition zero_address :: address where
  "zero_address = ''0x0000000000000000000000000000000000000000''"

definition example_event :: OrderFilledEvent where
  "example_event =
     \<lparr>OrderHash = 0, Maker = zero_address, Taker = zero_address, MakerAssetId = 0,
      TakerAssetId = 77, MakerAmountFilled = 10000000, TakerAmountFilled = 20, Fee = 0\<rparr>"

definition example_unpack :: "bytes \<Rightarrow> error + OrderFilledEvent" where
  "example_unpack data =
     (if data = []
      then Inl ''abi: attempting to unmarshall an empty string while arguments are expected''
      else Inr example_event)"

definition example_listener :: PolymarketListener where
  "example_listener =
     \<lparr>exchangeABI = example_unpack, orderFilledSig = 1, ordersMatchedSig = 2,
      topTraders = [''0x00000000000000000000000000000000000000a1'' \<mapsto> True]\<rparr>"

definition undecodable_fill_log :: Log where
  "undecodable_fill_log = \<lparr>log_Topics = [1, 10], log_Data = [], log_TxHash = 100\<rparr>"

definition matched_log :: Log where
  "matched_log = \<lparr>log_Topics = [2, 11], log_Data = [], log_TxHash = 101\<rparr>"

definition no_topics_log :: Log where
  "no_topics_log = \<lparr>log_Topics = [], log_Data = [], log_TxHash = 102\<rparr>"

definition example_request :: TradeRequest where
  "example_request =
     \<lparr>req_MarketID = ''m1'', req_TokenID = ''77'', req_Outcome = ''YES'', req_Side = ''buy'',
      req_Amount = 2, req_Price = 1 / 2\<rparr>"

definition all_succeed :: ExecEnv where
  "all_succeed =
     \<lparr>position_insert = None, trade_insert = None, transactor = Ok, status_update = None\<rparr>"

definition nil_key_panics :: ExecEnv where
  "nil_key_panics =
     \<lparr>position_insert = None, trade_insert = None,
      transactor = Panic ''invalid memory address or nil pointer dereference'',
      status_update = None\<rparr>"

definition trade_insert_fails :: ExecEnv where
  "trade_insert_fails =
     \<lparr>position_insert = None, trade_insert = Some ''database is locked'', transactor = Ok,
      status_update = None\<rparr>"

text \<open>A store with one open position and one pending trade, made by the two constructors.\<close>

definition one_pending_trade :: DB where
  "one_pending_trade =
     fst (CreateTrade None
            (fst (CreatePosition None empty_DB ''m1'' ''77'' ''YES'' 2 (1 / 2)))
            1 [] ''buy'' 2 (1 / 2))"

section \<open>Signal extraction\<close>

lemma extract_maker_fields:
  "Trader (extractTradeSignal ev True tk) = Maker ev"
  "Side (extractTradeSignal ev True tk) = (if MakerAssetId ev = 0 then ''BUY'' else ''SELL'')"
  "TokenID (extractTradeSignal ev True tk) =
     Some (if MakerAssetId ev = 0 then TakerAssetId ev else MakerAssetId ev)"
  "Amount (extractTradeSignal ev True tk) =
     Some (if MakerAssetId ev = 0 then TakerAmountFilled ev else MakerAmountFilled ev)"
  by (simp_all add: extractTradeSignal_def zero_TradeSignal_def Let_def)

lemma extract_taker_fields:
  "Trader (extractTradeSignal ev False True) = Taker ev"
  "Side (extractTradeSignal ev False True) = (if TakerAssetId ev = 0 then ''BUY'' else ''SELL'')"
  "TokenID (extractTradeSignal ev False True) =
     Some (if TakerAssetId ev = 0 then MakerAssetId ev else TakerAssetId ev)"
  "Amount (extractTradeSignal ev False True) =
     Some (if TakerAssetId ev = 0 then MakerAmountFilled ev else TakerAmountFilled ev)"
  by (simp_all add: extractTradeSignal_def zero_TradeSignal_def Let_def)

lemma extract_price:
  "Price (extractTradeSignal ev mk tk) =
     (if Side (extractTradeSignal ev mk tk) = ''BUY'' \<and> 0 < MakerAmountFilled ev
      then Some ((TakerAmountFilled ev * 1000000) div MakerAmountFilled ev) else None)"
  by (simp add: extractTradeSignal_def zero_TradeSignal_def Let_def)

text \<open>
  C4. For a decoded fill event with at least one tracked party the signal follows the
  directional rule with maker priority. The chosen party is the maker whenever the maker is
  tracked (also when both are), otherwise the taker. If the chosen party's own asset id is 0
  the signal is a BUY of the counter party's asset id for the counter party's amount filled;
  otherwise it is a SELL of the chosen party's own asset id for its own amount filled.
\<close>

theorem C4_directional_rule_maker_priority:
  assumes "makerIsTop \<or> takerIsTop"
  shows "(let s = extractTradeSignal ev makerIsTop takerIsTop;
              own_asset = (if makerIsTop then MakerAssetId ev else TakerAssetId ev);
              own_amount = (if makerIsTop then MakerAmountFilled ev else TakerAmountFilled ev);
              counter_asset = (if makerIsTop then TakerAssetId ev else MakerAssetId ev);
              counter_amount = (if makerIsTop then TakerAmountFilled ev else MakerAmountFilled ev)
          in Trader s = (if makerIsTop then Maker ev else Taker ev)
           \<and> (if own_asset = 0
              then Side s = ''BUY'' \<and> TokenID s = Some counter_asset
                 \<and> Amount s = Some counter_amount
              else Side s = ''SELL'' \<and> TokenID s = Some own_asset
                 \<and> Amount s = Some own_amount))"
proof (cases makerIsTop)
  case True
  then show ?thesis
    by (simp add: extract_maker_fields Let_def)
next
  case False
  with assms have "takerIsTop" by simp
  with False show ?thesis
    by (simp add: extract_taker_fields Let_def)
qed

theorem C4_directional_rule_maker_priority_witness:
  "(True \<or> True)
   \<and> (let s = extractTradeSignal
               \<lparr>OrderHash = 1, Maker = ''0x00000000000000000000000000000000000000A1'',
                Taker = ''0x00000000000000000000000000000000000000B2'',
                MakerAssetId = 0, TakerAssetId = 77, MakerAmountFilled = 10000000,
                TakerAmountFilled = 20, Fee = 0\<rparr> True True
      in Trader s = ''0x00000000000000000000000000000000000000A1'' \<and> Side s = ''BUY''
       \<and> TokenID s = Some 77 \<and> Amount s = Some 20)"
  using C4_directional_rule_maker_priority [of True True
      "\<lparr>OrderHash = 1, Maker = ''0x00000000000000000000000000000000000000A1'',
        Taker = ''0x00000000000000000000000000000000000000B2'',
        MakerAssetId = 0, TakerAssetId = 77, MakerAmountFilled = 10000000,
        TakerAmountFilled = 20, Fee = 0\<rparr>"]
  by (simp add: Let_def)

text \<open>
  C5, as stated, fails when the tracked party is the taker. The price block of
  \<open>extractTradeSignal\<close> always divides the taker's amount by the maker's, whichever party
  was chosen. A taker-tracked buy (taker asset id 0) with taker amount filled 10,000,000 and
  maker amount filled 20 has own amount 10,000,000 and counter amount 20, so the stated
  formula gives (20 * 1,000,000) / 10,000,000 = 2; the code yields
  (10,000,000 * 1,000,000) / 20 = 500,000,000,000.
\<close>

theorem C5_price_taker_tracked_counterexample:
  "Side (extractTradeSignal
      \<lparr>OrderHash = 1, Maker = ''0x00000000000000000000000000000000000000A1'',
       Taker = ''0x00000000000000000000000000000000000000B2'',
       MakerAssetId = 77, TakerAssetId = 0, MakerAmountFilled = 20,
       TakerAmountFilled = 10000000, Fee = 0\<rparr> False True) = ''BUY''
   \<and> Price (extractTradeSignal
      \<lparr>OrderHash = 1, Maker = ''0x00000000000000000000000000000000000000A1'',
       Taker = ''0x00000000000000000000000000000000000000B2'',
       MakerAssetId = 77, TakerAssetId = 0, MakerAmountFilled = 20,
       TakerAmountFilled = 10000000, Fee = 0\<rparr> False True) = Some 500000000000
   \<and> Some (500000000000 :: int) \<noteq> Some ((20 * 1000000) div 10000000)"
  by (simp add: extractTradeSignal_def zero_TradeSignal_def Let_def)

text \<open>
  C5, amended. The price is present exactly when the signal is a BUY and the event's maker
  amount filled is positive, and is then (taker amount filled * 1,000,000) div (maker amount
  filled), whichever party is tracked; a SELL signal never carries a price. When the maker is
  the tracked party this is the formula (counter amount * 1,000,000) / (own amount) under the
  guard own amount > 0.
\<close>

theorem C5_price_maker_over_taker:
  "Price (extractTradeSignal ev makerIsTop takerIsTop) =
     (if (if makerIsTop then MakerAssetId ev = 0 else takerIsTop \<and> TakerAssetId ev = 0)
         \<and> 0 < MakerAmountFilled ev
      then Some ((TakerAmountFilled ev * 1000000) div MakerAmountFilled ev)
      else None)
   \<and> (Side (extractTradeSignal ev makerIsTop takerIsTop) \<noteq> ''BUY''
        \<longrightarrow> Price (extractTradeSignal ev makerIsTop takerIsTop) = None)"
  by (simp add: extractTradeSignal_def zero_TradeSignal_def Let_def)

theorem C5_price_maker_over_taker_witness:
  "Price (extractTradeSignal
      \<lparr>OrderHash = 1, Maker = ''0x00000000000000000000000000000000000000A1'',
       Taker = ''0x00000000000000000000000000000000000000B2'',
       MakerAssetId = 0, TakerAssetId = 77, MakerAmountFilled = 10000000,
       TakerAmountFilled = 20, Fee = 0\<rparr> True False) = Some 2
   \<and> Price (extractTradeSignal
      \<lparr>OrderHash = 1, Maker = ''0x00000000000000000000000000000000000000A1'',
       Taker = ''0x00000000000000000000000000000000000000B2'',
       MakerAssetId = 77, TakerAssetId = 0, MakerAmountFilled = 10000000,
       TakerAmountFilled = 20, Fee = 0\<rparr> True False) = None"
  using C5_price_maker_over_taker [of
      "\<lparr>OrderHash = 1, Maker = ''0x00000000000000000000000000000000000000A1'',
        Taker = ''0x00000000000000000000000000000000000000B2'',
        MakerAssetId = 0, TakerAssetId = 77, MakerAmountFilled = 10000000,
        TakerAmountFilled = 20, Fee = 0\<rparr>" True False]
    C5_price_maker_over_taker [of
      "\<lparr>OrderHash = 1, Maker = ''0x00000000000000000000000000000000000000A1'',
        Taker = ''0x00000000000000000000000000000000000000B2'',
        MakerAssetId = 77, TakerAssetId = 0, MakerAmountFilled = 10000000,
        TakerAmountFilled = 20, Fee = 0\<rparr>" True False]
  by simp

section \<open>Processing the logs of a block\<close>

lemma processOrderFilled_no_panic: "snd (processOrderFilled toLower l vLog) \<noteq> Panic p"
  by (simp add: processOrderFilled_def storeTradeSignal_def Let_def split: sum.split)

lemma processLog_no_panic:
  "log_Topics vLog \<noteq> [] \<Longrightarrow> snd (processLog toLower l vLog) \<noteq> Panic p"
  by (cases "log_Topics vLog")
     (simp_all add: processLog_def processOrderFilled_no_panic processOrdersMatched_def)

lemma processLog_empty_topics:
  "log_Topics vLog = [] \<Longrightarrow>
     processLog toLower l vLog = ([], Panic ''index out of range [0] with length 0'')"
  by (simp add: processLog_def)

lemma processLogs_no_panic:
  "\<forall>v \<in> set logs. log_Topics v \<noteq> [] \<Longrightarrow> snd (processLogs toLower l logs) = Ok"
proof (induction logs)
  case Nil
  then show ?case by simp
next
  case (Cons v logs)
  obtain outs r where pl: "processLog toLower l v = (outs, r)"
    by (cases "processLog toLower l v")
  from Cons.prems have "log_Topics v \<noteq> []" by simp
  from processLog_no_panic [OF this, of toLower l] pl have np: "\<And>p. r \<noteq> Panic p" by simp
  from Cons have ih: "snd (processLogs toLower l logs) = Ok" by simp
  show ?case
  proof (cases r)
    case Ok
    with pl ih show ?thesis by (auto split: prod.split)
  next
    case (Err e)
    with pl show ?thesis by simp
  next
    case (Panic p)
    with np [of p] show ?thesis by simp
  qed
qed

lemma processLogs_break:
  assumes "\<forall>v \<in> set pre. snd (processLog toLower l v) = Ok"
    and "processLog toLower l vLog = (outs, Err err)"
  shows "processLogs toLower l (pre @ vLog # rest) =
           (concat (map (\<lambda>v. fst (processLog toLower l v)) pre) @ outs @ [ErrorProcessingLog err],
            Ok)"
  using assms
proof (induction pre)
  case Nil
  then show ?case by simp
next
  case (Cons v pre)
  then have "snd (processLog toLower l v) = Ok" by simp
  then obtain o1 where "processLog toLower l v = (o1, Ok)"
    by (cases "processLog toLower l v") simp
  with Cons show ?case by simp
qed

lemma watch_append:
  "snd (watch toLower l fl pre) = Running \<Longrightarrow>
     watch toLower l fl (pre @ evs) =
       (fst (watch toLower l fl pre) @ fst (watch toLower l fl evs),
        snd (watch toLower l fl evs))"
proof (induction toLower l fl pre rule: watch.induct)
  case (4 toLower l filterLogs n evs')
  then show ?case
    by (auto split: prod.splits ret.splits)
qed simp_all

lemma matched_log_processed:
  "processLog ascii_ToLower example_listener matched_log = ([OrdersMatchedSeen 101], Ok)"
  by (simp add: processLog_def matched_log_def example_listener_def processOrdersMatched_def)

lemma undecodable_fill_log_fails:
  "processLog ascii_ToLower example_listener undecodable_fill_log =
     ([], Err (''failed to unpack OrderFilled: '' @
        ''abi: attempting to unmarshall an empty string while arguments are expected''))"
  by (simp add: processLog_def undecodable_fill_log_def example_listener_def
      processOrderFilled_def example_unpack_def)

text \<open>
  C10. \<open>processLog\<close> reads \<open>Topics[0]\<close> with no length check. On a log whose topic list
  is empty the read is out of range and the call panics; on a log with at least one topic
  the call returns (nil or an error) without a panic, and a block all of whose logs have a
  topic is processed to the end of the function, which then returns nil.
\<close>

theorem C10_first_topic_read_unchecked:
  "(log_Topics vLog = [] \<longrightarrow>
      processLog toLower l vLog = ([], Panic ''index out of range [0] with length 0''))
   \<and> (log_Topics vLog \<noteq> [] \<longrightarrow> (\<forall>p. snd (processLog toLower l vLog) \<noteq> Panic p))
   \<and> ((\<forall>v \<in> set logs. log_Topics v \<noteq> []) \<longrightarrow> snd (processLogs toLower l logs) = Ok)"
  using processLog_empty_topics [of vLog toLower l] processLog_no_panic [of vLog toLower l]
    processLogs_no_panic [of logs toLower l]
  by blast

theorem C10_first_topic_read_unchecked_witness:
  "processLog ascii_ToLower example_listener no_topics_log =
      ([], Panic ''index out of range [0] with length 0'')
   \<and> snd (processLog ascii_ToLower example_listener matched_log) = Ok
   \<and> snd (processLogs ascii_ToLower example_listener [matched_log, undecodable_fill_log]) = Ok"
  using C10_first_topic_read_unchecked [of no_topics_log ascii_ToLower example_listener
      "[matched_log, undecodable_fill_log]"]
    C10_first_topic_read_unchecked [of matched_log ascii_ToLower example_listener "[]"]
  by (simp add: no_topics_log_def matched_log_processed)
     (simp add: matched_log_def undecodable_fill_log_def)

text \<open>
  C6, as stated, fails: the loop of \<open>processBlock\<close> leaves by \<open>break\<close> at the first log
  whose processing returns an error. In a block of two logs, a fill log with an empty
  payload followed by a batch-match log, the second log alone would be processed (its
  entry is written), but in the block it is never reached.
\<close>

theorem C6_remaining_logs_skipped_counterexample:
  "processLog ascii_ToLower example_listener matched_log = ([OrdersMatchedSeen 101], Ok)
   \<and> OrdersMatchedSeen 101 \<notin>
       set (fst (processLogs ascii_ToLower example_listener [undecodable_fill_log, matched_log]))
   \<and> fst (processLogs ascii_ToLower example_listener [undecodable_fill_log, matched_log]) =
       [ErrorProcessingLog (''failed to unpack OrderFilled: '' @
          ''abi: attempting to unmarshall an empty string while arguments are expected'')]"
  by (simp add: matched_log_processed undecodable_fill_log_fails)

text \<open>
  C6, amended. When the processing of a log of a block returns an error, as a fill event
  that cannot be decoded does, the logs before it have been processed, the error is logged, and the loop stops: every remaining log of the block is skipped, whatever
  it is. \<open>processBlock\<close> still returns nil, and the watch loop goes on with the next header,
  so the failure is not fatal to the watcher.
\<close>

theorem C6_error_ends_the_block:
  assumes "\<forall>v \<in> set pre. snd (processLog toLower l v) = Ok"
    and "processLog toLower l vLog = (outs, Err err)"
    and "filterLogs n = Inr (pre @ vLog # rest)"
  shows "processBlock toLower l filterLogs n =
           (concat (map (\<lambda>v. fst (processLog toLower l v)) pre) @ outs @ [ErrorProcessingLog err],
            Ok)
       \<and> watch toLower l filterLogs (Header n # evs) =
           (fst (processBlock toLower l filterLogs n) @ fst (watch toLower l filterLogs evs),
            snd (watch toLower l filterLogs evs))"
proof -
  have pb: "processBlock toLower l filterLogs n =
      (concat (map (\<lambda>v. fst (processLog toLower l v)) pre) @ outs @ [ErrorProcessingLog err], Ok)"
    using processLogs_break [OF assms(1,2), of rest] assms(3)
    by (simp add: processBlock_def)
  then show ?thesis
    by (simp split: prod.split)
qed

theorem C6_error_ends_the_block_witness:
  "processBlock ascii_ToLower example_listener
       (\<lambda>n. Inr ([matched_log] @ undecodable_fill_log # [matched_log, matched_log])) 7 =
     ([OrdersMatchedSeen 101,
       ErrorProcessingLog (''failed to unpack OrderFilled: '' @
         ''abi: attempting to unmarshall an empty string while arguments are expected'')], Ok)
   \<and> watch ascii_ToLower example_listener
       (\<lambda>n. Inr ([matched_log] @ undecodable_fill_log # [matched_log, matched_log]))
       (Header 7 # []) =
     ([OrdersMatchedSeen 101,
       ErrorProcessingLog (''failed to unpack OrderFilled: '' @
         ''abi: attempting to unmarshall an empty string while arguments are expected'')],
      Running)"
proof -
  have pre: "\<forall>v \<in> set [matched_log]. snd (processLog ascii_ToLower example_listener v) = Ok"
    by (simp add: matched_log_processed)
  show ?thesis
    using C6_error_ends_the_block [OF pre undecodable_fill_log_fails,
        of "\<lambda>n. Inr ([matched_log] @ undecodable_fill_log # [matched_log, matched_log])" 7
           "[matched_log, matched_log]" "[]"]
    by (simp add: matched_log_processed)
qed

section \<open>The watch loop\<close>

text \<open>
  C7, as stated, fails: on a subscription error the loop of \<open>Start\<close> logs the error and
  returns it. The listener has stopped, and a header that comes after the error is not
  processed; there is no resubscription.
\<close>

theorem C7_subscription_error_stops_counterexample:
  "Start ascii_ToLower example_listener None (\<lambda>n. Inr [matched_log])
       [SubErr ''EOF'', Header 7] = ([SubscriptionError ''EOF''], Returned ''EOF'')
   \<and> Start ascii_ToLower example_listener None (\<lambda>n. Inr [matched_log]) [Header 7] =
       ([OrdersMatchedSeen 101], Running)"
  by (simp add: Start_def processBlock_def matched_log_processed)

text \<open>
  C7, amended. When the block subscription fails while the watch loop is running, the loop
  logs the subscription error and returns it: \<open>Start\<close> terminates with that error, whatever
  would have come next, and nothing is resubscribed.
\<close>

theorem C7_subscription_error_returns:
  assumes "snd (watch toLower l filterLogs pre) = Running"
  shows "Start toLower l None filterLogs (pre @ SubErr err # rest) =
           (fst (watch toLower l filterLogs pre) @ [SubscriptionError err], Returned err)"
  using watch_append [OF assms, of "SubErr err # rest"]
  by (simp add: Start_def)

theorem C7_subscription_error_returns_witness:
  "snd (watch ascii_ToLower example_listener (\<lambda>n. Inr [matched_log]) [Header 6]) = Running
   \<and> Start ascii_ToLower example_listener None (\<lambda>n. Inr [matched_log])
       ([Header 6] @ SubErr ''EOF'' # [Header 7]) =
       ([OrdersMatchedSeen 101, SubscriptionError ''EOF''], Returned ''EOF'')"
proof -
  have run: "snd (watch ascii_ToLower example_listener (\<lambda>n. Inr [matched_log]) [Header 6]) = Running"
    by (simp add: processBlock_def matched_log_processed)
  show ?thesis
    using run C7_subscription_error_returns [OF run, of "''EOF''" "[Header 7]"]
    by (simp add: processBlock_def matched_log_processed)
qed

section \<open>Refreshing the tracked traders\<close>

lemma insert_traders_lookup:
  "insert_traders toLower traders m k =
     (if k \<in> toLower ` set traders then Some True else m k)"
  by (induction traders arbitrary: m) auto

lemma fill_states_length: "length (fill_states toLower traders l) = length traders"
  by (induction traders arbitrary: l) (simp_all add: Let_def)

lemma fill_states_nth:
  "k < length traders \<Longrightarrow>
     fill_states toLower traders l ! k =
       l\<lparr>topTraders := insert_traders toLower (take (Suc k) traders) (topTraders l)\<rparr>"
proof (induction traders arbitrary: l k)
  case Nil
  then show ?case by simp
next
  case (Cons t ts)
  show ?case
  proof (cases k)
    case 0
    then show ?thesis
      by (simp only: fill_states.simps Let_def nth_Cons_0 take_Suc_Cons take_0
          insert_traders.simps)
  next
    case (Suc j)
    with Cons.prems have j: "j < length ts" by simp
    have "fill_states toLower ts (l\<lparr>topTraders := (topTraders l)(toLower t \<mapsto> True)\<rparr>) ! j =
            l\<lparr>topTraders := (topTraders l)(toLower t \<mapsto> True)\<rparr>
             \<lparr>topTraders := insert_traders toLower (take (Suc j) ts)
                (topTraders (l\<lparr>topTraders := (topTraders l)(toLower t \<mapsto> True)\<rparr>))\<rparr>"
      by (rule Cons.IH [OF j])
    then show ?thesis
      by (simp add: Suc Let_def del: fun_upd_apply)
  qed
qed

lemma after_make_nth:
  "k \<le> length traders \<Longrightarrow>
     (l\<lparr>topTraders := Map.empty\<rparr> # fill_states toLower traders (l\<lparr>topTraders := Map.empty\<rparr>)) ! k =
       l\<lparr>topTraders := insert_traders toLower (take k traders) Map.empty\<rparr>"
proof (cases k)
  case 0
  then show ?thesis by simp
next
  case (Suc j)
  assume "k \<le> length traders"
  with Suc have "j < length traders" by simp
  from fill_states_nth [OF this, of toLower "l\<lparr>topTraders := Map.empty\<rparr>"] Suc
  show ?thesis by simp
qed

lemma tick_states_nth:
  "k \<le> length traders \<Longrightarrow>
     tick_states toLower (Inr traders) l ! Suc k =
       l\<lparr>topTraders := insert_traders toLower (take k traders) Map.empty\<rparr>"
  using after_make_nth [of k traders l toLower]
  by (simp add: tick_states_def Let_def)

lemma tick_states_length:
  "length (tick_states toLower (Inr traders) l) = length traders + 2"
  by (simp add: tick_states_def Let_def fill_states_length)

lemma fill_states_last:
  "last (l # fill_states toLower traders l) =
     l\<lparr>topTraders := insert_traders toLower traders (topTraders l)\<rparr>"
proof (induction traders arbitrary: l)
  case Nil
  then show ?case by simp
next
  case (Cons t ts)
  have "last (l # fill_states toLower (t # ts) l) =
          last (l\<lparr>topTraders := (topTraders l)(toLower t \<mapsto> True)\<rparr> #
                fill_states toLower ts (l\<lparr>topTraders := (topTraders l)(toLower t \<mapsto> True)\<rparr>))"
    by (simp only: fill_states.simps Let_def last.simps) simp
  also have "\<dots> = l\<lparr>topTraders := (topTraders l)(toLower t \<mapsto> True)\<rparr>
      \<lparr>topTraders := insert_traders toLower ts
         (topTraders (l\<lparr>topTraders := (topTraders l)(toLower t \<mapsto> True)\<rparr>))\<rparr>"
    by (rule Cons.IH)
  finally show ?case
    by (simp del: fun_upd_apply)
qed

lemma tick_states_last:
  "last (tick_states toLower r l) = fst (updateTopTraders_tick toLower r l)"
proof (cases r)
  case (Inl err)
  then show ?thesis by (simp add: tick_states_def updateTopTraders_tick_def)
next
  case (Inr traders)
  have "last (tick_states toLower (Inr traders) l) =
          last (l\<lparr>topTraders := Map.empty\<rparr> #
                fill_states toLower traders (l\<lparr>topTraders := Map.empty\<rparr>))"
    by (simp add: tick_states_def Let_def)
  also have "\<dots> = l\<lparr>topTraders := insert_traders toLower traders Map.empty\<rparr>"
    using fill_states_last [of "l\<lparr>topTraders := Map.empty\<rparr>" toLower traders] by simp
  finally show ?thesis
    using Inr by (simp add: updateTopTraders_tick_def Let_def)
qed

lemma ascii_ToLower_A1:
  "ascii_ToLower ''0x00000000000000000000000000000000000000A1'' =
     ''0x00000000000000000000000000000000000000a1''"
  by code_simp

lemma ascii_ToLower_B2:
  "ascii_ToLower ''0x00000000000000000000000000000000000000B2'' =
     ''0x00000000000000000000000000000000000000b2''"
  by code_simp

text \<open>
  C8, as stated, fails: a tick of \<open>updateTopTraders\<close> whose query succeeds stores a fresh
  map built from the fetched list, with no test for an empty list. A listener that tracks
  one address tracks none after a refresh that fetched the empty list.
\<close>

theorem C8_empty_fetch_clears_set_counterexample:
  "map_index (topTraders example_listener) ''0x00000000000000000000000000000000000000a1''
   \<and> dom (topTraders example_listener) \<noteq> {}
   \<and> dom (topTraders (fst (updateTopTraders_tick ascii_ToLower (Inr []) example_listener))) = {}
   \<and> \<not> map_index (topTraders (fst (updateTopTraders_tick ascii_ToLower (Inr []) example_listener)))
         ''0x00000000000000000000000000000000000000a1''"
  by (simp add: updateTopTraders_tick_def example_listener_def map_index_def)

text \<open>
  C8, amended. A refresh whose query of the store fails leaves the tracked set unchanged.
  A refresh whose query succeeds replaces the set by exactly the lower-cased fetched
  addresses, whatever the set was before; when the fetched list is empty the new set is
  empty.
\<close>

theorem C8_refresh_replaces_set:
  "fst (updateTopTraders_tick toLower (Inl err) l) = l
   \<and> topTraders (fst (updateTopTraders_tick toLower (Inr traders) l)) k =
       (if k \<in> toLower ` set traders then Some True else None)
   \<and> topTraders (fst (updateTopTraders_tick toLower (Inr []) l)) = Map.empty"
  by (simp add: updateTopTraders_tick_def Let_def insert_traders_lookup)

theorem C8_refresh_replaces_set_witness:
  "fst (updateTopTraders_tick ascii_ToLower (Inl ''database is locked'') example_listener) =
     example_listener
   \<and> topTraders (fst (updateTopTraders_tick ascii_ToLower
        (Inr [''0x00000000000000000000000000000000000000B2'']) example_listener))
        ''0x00000000000000000000000000000000000000b2'' = Some True
   \<and> topTraders (fst (updateTopTraders_tick ascii_ToLower
        (Inr [''0x00000000000000000000000000000000000000B2'']) example_listener))
        ''0x00000000000000000000000000000000000000a1'' = None
   \<and> topTraders (fst (updateTopTraders_tick ascii_ToLower (Inr []) example_listener))
        ''0x00000000000000000000000000000000000000a1'' = None"
  using C8_refresh_replaces_set [of ascii_ToLower "''database is locked''" example_listener
      "[''0x00000000000000000000000000000000000000B2'']"
      "''0x00000000000000000000000000000000000000b2''"]
    C8_refresh_replaces_set [of ascii_ToLower "''database is locked''" example_listener
      "[''0x00000000000000000000000000000000000000B2'']"
      "''0x00000000000000000000000000000000000000a1''"]
  by (simp add: ascii_ToLower_B2)

text \<open>
  C9, as stated, fails: the replacement set is not built off to the side. The tick assigns
  a fresh empty map to the listener's field \<open>topTraders\<close> and fills it in place. A listener
  that tracks one address is refreshed with a list that holds the same address: before the
  tick the address is tracked, after the first statement of the tick the listener's set is
  empty and the address is not tracked, and after the insertion, where the tick ends, it is
  tracked again. The state in between is neither the old set nor the new one, and is smaller
  than the complete prior generation.
\<close>

theorem C9_refresh_in_place_counterexample:
  "map_index (topTraders (tick_states ascii_ToLower
       (Inr [''0x00000000000000000000000000000000000000A1'']) example_listener ! 0))
       ''0x00000000000000000000000000000000000000a1''
   \<and> \<not> map_index (topTraders (tick_states ascii_ToLower
       (Inr [''0x00000000000000000000000000000000000000A1'']) example_listener ! 1))
       ''0x00000000000000000000000000000000000000a1''
   \<and> dom (topTraders (tick_states ascii_ToLower
       (Inr [''0x00000000000000000000000000000000000000A1'']) example_listener ! 1)) = {}
   \<and> map_index (topTraders (tick_states ascii_ToLower
       (Inr [''0x00000000000000000000000000000000000000A1'']) example_listener ! 2))
       ''0x00000000000000000000000000000000000000a1''
   \<and> tick_states ascii_ToLower
       (Inr [''0x00000000000000000000000000000000000000A1'']) example_listener ! 0 =
       example_listener
   \<and> tick_states ascii_ToLower
       (Inr [''0x00000000000000000000000000000000000000A1'']) example_listener ! 2 =
       fst (updateTopTraders_tick ascii_ToLower
         (Inr [''0x00000000000000000000000000000000000000A1'']) example_listener)
   \<and> length (tick_states ascii_ToLower
       (Inr [''0x00000000000000000000000000000000000000A1'']) example_listener) = 3"
  by (simp add: tick_states_def updateTopTraders_tick_def example_listener_def map_index_def
      ascii_ToLower_A1 Let_def)

text \<open>
  C9, amended. During a refresh whose query of the store succeeds, the listener's field
  \<open>topTraders\<close> holds in turn: the prior set; the empty map, assigned before any address is
  inserted; and, after the k-th insertion, exactly the first k fetched addresses in lower
  case. The state after the last insertion is the one the refresh leaves. So the new set is
  filled in the listener's own field and not built aside and put in place in one step: a
  look-up on the field at any point after the assignment finds an address tracked exactly
  when it is among the addresses inserted so far, whatever the prior set was, and an
  address of the prior generation is not found until it has been inserted again. A refresh
  whose query fails does not write the field.
\<close>

theorem C9_refresh_fills_listener_field:
  assumes "k \<le> length traders"
  shows "tick_states toLower (Inl err) l = [l]
       \<and> length (tick_states toLower (Inr traders) l) = length traders + 2
       \<and> tick_states toLower (Inr traders) l ! 0 = l
       \<and> tick_states toLower (Inr traders) l ! 1 = l\<lparr>topTraders := Map.empty\<rparr>
       \<and> tick_states toLower (Inr traders) l ! Suc k =
           l\<lparr>topTraders := insert_traders toLower (take k traders) Map.empty\<rparr>
       \<and> map_index (topTraders (tick_states toLower (Inr traders) l ! Suc k)) a =
           (a \<in> toLower ` set (take k traders))
       \<and> last (tick_states toLower (Inr traders) l) =
           fst (updateTopTraders_tick toLower (Inr traders) l)"
proof -
  have s: "tick_states toLower (Inr traders) l ! Suc k =
      l\<lparr>topTraders := insert_traders toLower (take k traders) Map.empty\<rparr>"
    by (rule tick_states_nth [OF assms])
  have m: "map_index (topTraders (tick_states toLower (Inr traders) l ! Suc k)) a =
      (a \<in> toLower ` set (take k traders))"
    by (simp only: s) (simp add: map_index_def insert_traders_lookup)
  have z: "tick_states toLower (Inr traders) l ! 0 = l
      \<and> tick_states toLower (Inr traders) l ! 1 = l\<lparr>topTraders := Map.empty\<rparr>
      \<and> tick_states toLower (Inl err) l = [l]"
    by (simp add: tick_states_def Let_def)
  from s m z tick_states_length [of toLower traders l]
    tick_states_last [of toLower "Inr traders" l]
  show ?thesis by simp
qed

theorem C9_refresh_fills_listener_field_witness:
  "(1::nat) \<le> length [''0x00000000000000000000000000000000000000B2'',
                       ''0x00000000000000000000000000000000000000A1'']
   \<and> length (tick_states ascii_ToLower
        (Inr [''0x00000000000000000000000000000000000000B2'',
              ''0x00000000000000000000000000000000000000A1'']) example_listener) = 4
   \<and> tick_states ascii_ToLower
        (Inr [''0x00000000000000000000000000000000000000B2'',
              ''0x00000000000000000000000000000000000000A1'']) example_listener ! 0 =
       example_listener
   \<and> map_index (topTraders (tick_states ascii_ToLower
        (Inr [''0x00000000000000000000000000000000000000B2'',
              ''0x00000000000000000000000000000000000000A1'']) example_listener ! 2))
        ''0x00000000000000000000000000000000000000b2''
   \<and> \<not> map_index (topTraders (tick_states ascii_ToLower
        (Inr [''0x00000000000000000000000000000000000000B2'',
              ''0x00000000000000000000000000000000000000A1'']) example_listener ! 2))
        ''0x00000000000000000000000000000000000000a1''"
  using C9_refresh_fills_listener_field [of 1
      "[''0x00000000000000000000000000000000000000B2'',
        ''0x00000000000000000000000000000000000000A1'']"
      ascii_ToLower "''database is locked''" example_listener
      "''0x00000000000000000000000000000000000000b2''"]
    C9_refresh_fills_listener_field [of 1
      "[''0x00000000000000000000000000000000000000B2'',
        ''0x00000000000000000000000000000000000000A1'']"
      ascii_ToLower "''database is locked''" example_listener
      "''0x00000000000000000000000000000000000000a1''"]
  by (simp add: ascii_ToLower_B2 numeral_2_eq_2 map_index_def)

section \<open>Executing a trade request\<close>

lemmas executor_defs =
  ExecuteTrade_def CreatePosition_def CreateTrade_def UpdateTradeStatus_def submitTrade_def

lemma update_other_id:
  "list_all (\<lambda>t. t_id t \<le> n) ts \<Longrightarrow>
     map (\<lambda>t. if t_id t = n + 1 then f t else t) ts = ts"
  by (induction ts) auto

lemma ExecuteTrade_trades_length:
  "length (trades (fst (ExecuteTrade env db req))) =
     length (trades db) + (if position_insert env = None \<and> trade_insert env = None then 1 else 0)"
  by (simp add: executor_defs Let_def split: option.split ret.split)

lemma deliveries_trades_length:
  "length (trades (foldl (\<lambda>db env. fst (ExecuteTrade env db req)) db envs)) =
     length (trades db)
       + length (filter (\<lambda>env. position_insert env = None \<and> trade_insert env = None) envs)"
proof (induction envs arbitrary: db)
  case Nil
  then show ?case by simp
next
  case (Cons env envs)
  show ?case
    by (simp only: foldl_Cons Cons.IH ExecuteTrade_trades_length filter.simps)
       (simp split: if_split)
qed

lemma ids_below_seq_empty: "ids_below_seq empty_DB"
  by (simp add: ids_below_seq_def empty_DB_def)

lemma list_all_le_mono: "list_all (\<lambda>x. f x \<le> (n::int)) xs \<Longrightarrow> list_all (\<lambda>x. f x \<le> n + 1) xs"
  by (induction xs) auto

lemma ids_below_seq_ExecuteTrade:
  assumes "ids_below_seq db"
  shows "ids_below_seq (fst (ExecuteTrade env db req))"
proof -
  from assms have t: "list_all (\<lambda>t. t_id t \<le> trades_seq db) (trades db)"
    and p: "list_all (\<lambda>p. p_id p \<le> positions_seq db) (positions db)"
    by (simp_all add: ids_below_seq_def)
  note t' = list_all_le_mono [OF t] and p' = list_all_le_mono [OF p]
  show ?thesis
    using t p t' p'
    by (auto simp: executor_defs ids_below_seq_def Let_def list_all_iff
        split: option.split ret.split)
qed

text \<open>
  C1, as stated, fails: \<open>ExecuteTrade\<close> begins with the insertion of the position, not with
  a look-up of existing trades, and a \<open>TradeRequest\<close> carries neither a transaction hash
  nor an order hash. Executing the same request twice on an empty store leaves two trade
  rows, with ids 1 and 2 (also when each execution ends in the panic of \<open>submitTrade\<close>).
\<close>

theorem C1_second_delivery_adds_row_counterexample:
  "map t_id (trades (fst (ExecuteTrade all_succeed
       (fst (ExecuteTrade all_succeed empty_DB example_request)) example_request))) = [1, 2]
   \<and> length (trades (fst (ExecuteTrade all_succeed
       (fst (ExecuteTrade all_succeed empty_DB example_request)) example_request))) = 2
   \<and> length (trades (fst (ExecuteTrade nil_key_panics
       (fst (ExecuteTrade nil_key_panics empty_DB example_request)) example_request))) = 2"
  by (simp add: executor_defs all_succeed_def nil_key_panics_def empty_DB_def
      example_request_def Let_def)

text \<open>
  C1, amended. Every execution of a trade request whose two insertions succeed adds
  exactly one trade row, whatever rows the store holds already; an execution in which an
  insertion fails adds none. So the number of trade rows created for a request equals the
  number of its deliveries whose insertions succeed: delivering the same request twice
  yields two rows. No idempotency key is stored or checked.
\<close>

theorem C1_one_trade_row_per_delivery:
  "length (trades (fst (ExecuteTrade env db req))) =
     length (trades db) + (if position_insert env = None \<and> trade_insert env = None then 1 else 0)
   \<and> length (trades (foldl (\<lambda>db env. fst (ExecuteTrade env db req)) db envs)) =
       length (trades db)
         + length (filter (\<lambda>env. position_insert env = None \<and> trade_insert env = None) envs)"
  using ExecuteTrade_trades_length [of env db req] deliveries_trades_length [of req db envs]
  by simp

theorem C1_one_trade_row_per_delivery_witness:
  "length (trades (fst (ExecuteTrade all_succeed empty_DB example_request))) = 1
   \<and> length (trades (foldl (\<lambda>db env. fst (ExecuteTrade env db example_request)) empty_DB
        [all_succeed, trade_insert_fails, all_succeed])) = 2"
  using C1_one_trade_row_per_delivery [of all_succeed empty_DB example_request
      "[all_succeed, trade_insert_fails, all_succeed]"]
  by (simp add: all_succeed_def trade_insert_fails_def empty_DB_def)

text \<open>
  C2, as stated, fails: the position and the trade are written by two separate statements
  with no transaction around them. When the insertion of the trade fails, the position
  inserted just before stays in the store without a trade.
\<close>

theorem C2_position_without_trade_counterexample:
  "map p_id (positions (fst (ExecuteTrade trade_insert_fails empty_DB example_request))) = [1]
   \<and> trades (fst (ExecuteTrade trade_insert_fails empty_DB example_request)) = []
   \<and> snd (ExecuteTrade trade_insert_fails empty_DB example_request) =
       Err (''failed to create trade: '' @ ''database is locked'')"
  by (simp add: executor_defs trade_insert_fails_def empty_DB_def example_request_def Let_def)

text \<open>
  C2, amended. An execution writes the position first and the trade second, each by its
  own statement. If the insertion of the position fails, the store is unchanged and the
  execution is aborted. If the insertion of the position succeeds and that of the trade
  fails, the execution is aborted with the new open position left in the store and no
  trade for it. If both succeed, one position and one trade are added and the trade
  refers to that position. A trade is never written without its position.
\<close>

theorem C2_position_then_trade:
  "(position_insert env = Some e \<longrightarrow>
      ExecuteTrade env db req = (db, Err (''failed to create position: '' @ e)))
   \<and> (position_insert env = None \<and> trade_insert env = Some e \<longrightarrow>
        ExecuteTrade env db req =
          (db\<lparr>positions := positions db @
                 [\<lparr>p_id = positions_seq db + 1, p_market_id = req_MarketID req,
                   p_token_id = req_TokenID req, p_outcome = req_Outcome req,
                   p_amount = req_Amount req, p_avg_price = req_Price req,
                   p_current_price = req_Price req, p_status = ''open''\<rparr>],
               positions_seq := positions_seq db + 1\<rparr>,
           Err (''failed to create trade: '' @ e)))
   \<and> (position_insert env = None \<and> trade_insert env = None \<longrightarrow>
        length (positions (fst (ExecuteTrade env db req))) = length (positions db) + 1
        \<and> length (trades (fst (ExecuteTrade env db req))) = length (trades db) + 1
        \<and> p_id (last (positions (fst (ExecuteTrade env db req)))) = positions_seq db + 1
        \<and> t_position_id (last (trades (fst (ExecuteTrade env db req)))) = positions_seq db + 1)"
  by (simp add: executor_defs Let_def last_map split: option.split ret.split)

theorem C2_position_then_trade_witness:
  "ExecuteTrade (trade_insert_fails\<lparr>position_insert := Some ''disk full''\<rparr>) empty_DB
       example_request = (empty_DB, Err (''failed to create position: '' @ ''disk full''))
   \<and> length (positions (fst (ExecuteTrade trade_insert_fails empty_DB example_request))) = 1
   \<and> length (trades (fst (ExecuteTrade trade_insert_fails empty_DB example_request))) = 0
   \<and> length (positions (fst (ExecuteTrade all_succeed empty_DB example_request))) = 1
   \<and> t_position_id (last (trades (fst (ExecuteTrade all_succeed empty_DB example_request)))) = 1"
  using C2_position_then_trade [of "trade_insert_fails\<lparr>position_insert := Some ''disk full''\<rparr>"
      "''disk full''" empty_DB example_request]
    C2_position_then_trade [of trade_insert_fails "''database is locked''" empty_DB
      example_request]
    C2_position_then_trade [of all_succeed "''database is locked''" empty_DB example_request]
  by (simp add: all_succeed_def trade_insert_fails_def empty_DB_def)

text \<open>
  C3, as stated, fails: \<open>UpdateTradeStatus\<close> does not look at the current status. A
  pending trade is confirmed by one update; a second update, to \<open>pending\<close>, is accepted
  (it returns nil) and takes effect on the confirmed trade.
\<close>

theorem C3_confirmed_trade_updated_counterexample:
  "map t_status (trades one_pending_trade) = [''pending'']
   \<and> map t_status (trades (fst (UpdateTradeStatus None one_pending_trade 1
        ''confirmed'' mockTxHash))) = [''confirmed'']
   \<and> map t_status (trades (fst (UpdateTradeStatus None
        (fst (UpdateTradeStatus None one_pending_trade 1 ''confirmed'' mockTxHash))
        1 ''pending'' []))) = [''pending'']
   \<and> snd (UpdateTradeStatus None
        (fst (UpdateTradeStatus None one_pending_trade 1 ''confirmed'' mockTxHash))
        1 ''pending'' []) = None"
  by (simp add: one_pending_trade_def CreateTrade_def CreatePosition_def UpdateTradeStatus_def
      empty_DB_def Let_def)

text \<open>
  C3, amended. An execution whose insertions succeed adds its trade as pending and issues
  at most one status update for it: to confirmed with the transaction hash when the
  submission succeeds, to failed with the empty hash when it returns an error; the trade
  stays pending if the submission panics or the statement of the update fails. The rows
  that were in the store before are left as they were. \<open>UpdateTradeStatus\<close> itself is
  unconditional: when its statement succeeds it returns nil and the row with the given id
  carries the given status and hash, whatever its status was, confirmed and failed
  included.
\<close>

theorem C3_status_update_unconditional:
  "(ids_below_seq db \<and> position_insert env = None \<and> trade_insert env = None \<longrightarrow>
      trades (fst (ExecuteTrade env db req)) =
        trades db @
          [\<lparr>t_id = trades_seq db + 1, t_position_id = positions_seq db + 1,
            t_trader_address = [], t_side = req_Side req, t_amount = req_Amount req,
            t_price = req_Price req,
            t_tx_hash =
              (case transactor env of
                 Ok \<Rightarrow> if status_update env = None then Some mockTxHash else None
               | Err err \<Rightarrow> if status_update env = None then Some [] else None
               | Panic p \<Rightarrow> None),
            t_status =
              (case transactor env of
                 Ok \<Rightarrow> if status_update env = None then ''confirmed'' else ''pending''
               | Err err \<Rightarrow> if status_update env = None then ''failed'' else ''pending''
               | Panic p \<Rightarrow> ''pending'')\<rparr>])
   \<and> (t \<in> set (trades db) \<and> t_id t = tradeID \<longrightarrow>
        t\<lparr>t_status := status, t_tx_hash := Some txHash\<rparr>
          \<in> set (trades (fst (UpdateTradeStatus None db tradeID status txHash)))
        \<and> snd (UpdateTradeStatus None db tradeID status txHash) = None)"
proof -
  have a: "list_all (\<lambda>t. t_id t \<le> trades_seq db) (trades db) \<Longrightarrow>
      map (\<lambda>t. if t_id t = trades_seq db + 1 then f t else t) (trades db) = trades db" for f
    by (rule update_other_id)
  show ?thesis
    by (auto simp: executor_defs Let_def ids_below_seq_def a split: option.split ret.split)
qed

theorem C3_status_update_unconditional_witness:
  "ids_below_seq empty_DB
   \<and> map t_status (trades (fst (ExecuteTrade all_succeed empty_DB example_request))) =
       [''confirmed'']
   \<and> map t_status (trades (fst (ExecuteTrade (all_succeed\<lparr>transactor := Err ''no chain id''\<rparr>)
        empty_DB example_request))) = [''failed'']
   \<and> map t_status (trades (fst (UpdateTradeStatus None
        \<lparr>positions = [], positions_seq = 1,
         trades = [\<lparr>t_id = 1, t_position_id = 1, t_trader_address = [], t_side = ''buy'',
                    t_amount = 2, t_price = 1, t_tx_hash = Some [], t_status = ''failed''\<rparr>],
         trades_seq = 1\<rparr> 1 ''confirmed'' mockTxHash))) = [''confirmed'']"
  using ids_below_seq_empty
    C3_status_update_unconditional [of empty_DB all_succeed example_request
      "\<lparr>t_id = 1, t_position_id = 1, t_trader_address = [], t_side = ''buy'',
        t_amount = 2, t_price = 1, t_tx_hash = Some [], t_status = ''failed''\<rparr>" 1
      "''confirmed''" mockTxHash]
    C3_status_update_unconditional [of empty_DB
      "all_succeed\<lparr>transactor := Err ''no chain id''\<rparr>" example_request
      "\<lparr>t_id = 1, t_position_id = 1, t_trader_address = [], t_side = ''buy'',
        t_amount = 2, t_price = 1, t_tx_hash = Some [], t_status = ''failed''\<rparr>" 1
      "''confirmed''" mockTxHash]
    C3_status_update_unconditional [of
      "\<lparr>positions = [], positions_seq = 1,
        trades = [\<lparr>t_id = 1, t_position_id = 1, t_trader_address = [], t_side = ''buy'',
                   t_amount = 2, t_price = 1, t_tx_hash = Some [], t_status = ''failed''\<rparr>],
        trades_seq = 1\<rparr>" all_succeed example_request
      "\<lparr>t_id = 1, t_position_id = 1, t_trader_address = [], t_side = ''buy'',
        t_amount = 2, t_price = 1, t_tx_hash = Some [], t_status = ''failed''\<rparr>" 1
      "''confirmed''" mockTxHash]
  by (simp add: all_succeed_def empty_DB_def UpdateTradeStatus_def)

end
